theory Spec2Isabelle
  imports Main "HOL-Library.Word"
begin

section \<open>The variadic parameter-list test routine of the YottaDB Go wrapper\<close>

text \<open>
  This theory embeds \<^verbatim>\<open>YdB_vArIaDiC_pLiSt_TeSt\<close> (file
  \<^verbatim>\<open>YdB_vArIaDiC_pLiSt_TeSt.c\<close>), the C routine that consumes a variadic argument list
  built by the Go wrapper, and states what it returns and prints.

  The routine receives its arguments through the C variadic protocol and reads two
  \<^verbatim>\<open>ydb_buffer_t\<close> structures and their backing bytes through pointers. The embedding
  therefore passes the variadic arguments as a list of slots and the memory as an explicit
  store. What the C standard leaves undefined (pulling an argument that was not passed or
  has another type, reading through a pointer to nothing) is an explicit outcome of the
  model, so that "no slot is read" and "the routine returns" are statements one can prove.
\<close>

subsection \<open>Data\<close>

type_synonym addr = nat

type_synonym c_int = "32 word"

type_synonym c_uint = "32 word"

text \<open>
  Modelled from the spec: \<^verbatim>\<open>ydb_buffer_t\<close> is declared in \<^verbatim>\<open>libyottadb.h\<close>, which
  is not among the sources. The routine uses its three fields \<^verbatim>\<open>len_alloc\<close>,
  \<^verbatim>\<open>len_used\<close> and \<^verbatim>\<open>buf_addr\<close>; the spec (section 3, Buffer Descriptor) gives them as
  the allocated length and the used length, both non-negative integers, and the address of
  the backing bytes. The lengths are taken as C \<^verbatim>\<open>unsigned int\<close>.
\<close>

record ydb_buffer_t =
  len_alloc :: c_uint
  len_used :: c_uint
  buf_addr :: addr

text \<open>
  A variadic argument as the caller passed it: an \<^verbatim>\<open>int\<close> or a pointer to a
  \<^verbatim>\<open>ydb_buffer_t\<close> (spec section 3, Parameter Slot).
\<close>

datatype slot = IntSlot c_int | PtrSlot addr

text \<open>
  The store: the \<^verbatim>\<open>ydb_buffer_t\<close> objects by address, the bytes by address, and what has
  been written to standard output so far.
\<close>

record world =
  desc_heap :: "addr \<rightharpoonup> ydb_buffer_t"
  byte_heap :: "addr \<rightharpoonup> char"
  stdout :: string

text \<open>The ways in which an execution leaves what the C standard defines.\<close>

datatype undefined_behaviour =
  VaArgPastEnd
  | VaArgWrongType
  | InvalidDescriptor
  | UnreadableByte
  | ObjectOverrun
  | PrecisionNotInt

definition ub_bind ::
  "undefined_behaviour + 'a \<Rightarrow> ('a \<Rightarrow> undefined_behaviour + 'b) \<Rightarrow> undefined_behaviour + 'b" where
  "ub_bind m f = (case m of Inl e \<Rightarrow> Inl e | Inr x \<Rightarrow> f x)"

subsection \<open>The variadic argument cursor (\<^verbatim>\<open>stdarg.h\<close>)\<close>

record va_list =
  ap_slots :: "slot list"
  ap_next :: nat

definition va_start :: "slot list \<Rightarrow> va_list" where
  "va_start args = \<lparr>ap_slots = args, ap_next = 0\<rparr>"

text \<open>\<^verbatim>\<open>va_arg(var, int)\<close>: the next slot, which has to exist and to hold an \<^verbatim>\<open>int\<close>.\<close>

definition va_arg_int :: "va_list \<Rightarrow> undefined_behaviour + (c_int \<times> va_list)" where
  "va_arg_int ap =
     (if ap_next ap < length (ap_slots ap) then
        (case ap_slots ap ! ap_next ap of
           IntSlot n \<Rightarrow> Inr (n, ap\<lparr>ap_next := Suc (ap_next ap)\<rparr>)
         | PtrSlot p \<Rightarrow> Inl VaArgWrongType)
      else Inl VaArgPastEnd)"

text \<open>\<^verbatim>\<open>va_arg(var, ydb_buffer_t *)\<close>: the next slot, which has to exist and to hold a pointer.\<close>

definition va_arg_ptr :: "va_list \<Rightarrow> undefined_behaviour + (addr \<times> va_list)" where
  "va_arg_ptr ap =
     (if ap_next ap < length (ap_slots ap) then
        (case ap_slots ap ! ap_next ap of
           PtrSlot p \<Rightarrow> Inr (p, ap\<lparr>ap_next := Suc (ap_next ap)\<rparr>)
         | IntSlot n \<Rightarrow> Inl VaArgWrongType)
      else Inl VaArgPastEnd)"

subsection \<open>Memory reads\<close>

text \<open>Reading the structure a \<^verbatim>\<open>ydb_buffer_t *\<close> points to (\<^verbatim>\<open>buft1->...\<close>).\<close>

definition deref :: "world \<Rightarrow> addr \<Rightarrow> undefined_behaviour + ydb_buffer_t" where
  "deref w p = (case desc_heap w p of None \<Rightarrow> Inl InvalidDescriptor | Some b \<Rightarrow> Inr b)"

text \<open>The \<open>n\<close> bytes at address \<open>a\<close>, when all of them are there.\<close>

fun read_bytes :: "(addr \<rightharpoonup> char) \<Rightarrow> addr \<Rightarrow> nat \<Rightarrow> string option" where
  "read_bytes m a 0 = Some []"
| "read_bytes m a (Suc n) =
     (case m a of
        None \<Rightarrow> None
      | Some c \<Rightarrow> map_option ((#) c) (read_bytes m (Suc a) n))"

definition NUL :: char where
  "NUL = CHR 0x00"

text \<open>
  A string literal of the source as the bytes of a C string: what precedes the first
  \<^verbatim>\<open>NUL\<close>. \<^verbatim>\<open>strlen\<close> counts them, \<^verbatim>\<open>%s\<close> prints them.
\<close>

definition c_string :: "string \<Rightarrow> string" where
  "c_string s = takeWhile (\<lambda>c. c \<noteq> NUL) s"

definition strlen :: "string \<Rightarrow> nat" where
  "strlen s = length (c_string s)"

text \<open>
  The value \<^verbatim>\<open>memcmp\<close> returns on two byte sequences of the same length: zero when they
  agree, otherwise the difference of the first two bytes that differ.
\<close>

fun compare_bytes :: "string \<Rightarrow> string \<Rightarrow> int" where
  "compare_bytes (x # xs) (y # ys) =
     (if x = y then compare_bytes xs ys else int (of_char x) - int (of_char y))"
| "compare_bytes xs ys = 0"

text \<open>
  \<^verbatim>\<open>memcmp(lit, s2, n)\<close> with a string literal as its first argument: the literal is an
  object of \<open>length lit + 1\<close> bytes (the terminating \<^verbatim>\<open>NUL\<close> included), and all \<open>n\<close>
  bytes at \<open>s2\<close> have to be readable.
\<close>

definition memcmp ::
  "string \<Rightarrow> (addr \<rightharpoonup> char) \<Rightarrow> addr \<Rightarrow> nat \<Rightarrow> undefined_behaviour + int" where
  "memcmp lit m s2 n =
     (if length lit + 1 < n then Inl ObjectOverrun
      else case read_bytes m s2 n of
             None \<Rightarrow> Inl UnreadableByte
           | Some bs \<Rightarrow> Inr (compare_bytes (take n (lit @ [NUL])) bs))"

subsection \<open>Formatted output (\<^verbatim>\<open>printf\<close>)\<close>

definition dec_digit :: "nat \<Rightarrow> char" where
  "dec_digit n = ''0123456789'' ! n"

fun dec_digits :: "nat \<Rightarrow> string" where
  "dec_digits n =
     (if n < 10 then [dec_digit n] else dec_digits (n div 10) @ [dec_digit (n mod 10)])"

declare dec_digits.simps [simp del]

text \<open>The conversion \<^verbatim>\<open>%d\<close> of an \<^verbatim>\<open>int\<close>.\<close>

definition fmt_d :: "c_int \<Rightarrow> string" where
  "fmt_d x = (if sint x < 0 then CHR ''-'' # dec_digits (nat (- sint x))
              else dec_digits (nat (sint x)))"

definition hex_digit :: "nat \<Rightarrow> char" where
  "hex_digit n = ''0123456789abcdef'' ! n"

fun hex_digits :: "nat \<Rightarrow> string" where
  "hex_digits n =
     (if n < 16 then [hex_digit n] else hex_digits (n div 16) @ [hex_digit (n mod 16)])"

declare hex_digits.simps [simp del]

text \<open>The conversion \<^verbatim>\<open>%016lx\<close> of a pointer cast to \<^verbatim>\<open>unsigned long\<close>.\<close>

definition fmt_016lx :: "addr \<Rightarrow> string" where
  "fmt_016lx a =
     (let ds = hex_digits (a mod 2 ^ 64) in replicate (16 - length ds) (CHR ''0'') @ ds)"

text \<open>
  The characters \<^verbatim>\<open>%.Ns\<close> prints from address \<open>a\<close>: at most \<open>N\<close> bytes, stopping before
  the first \<^verbatim>\<open>NUL\<close>. Every byte it looks at has to be readable.
\<close>

fun print_bytes :: "(addr \<rightharpoonup> char) \<Rightarrow> addr \<Rightarrow> nat \<Rightarrow> undefined_behaviour + string" where
  "print_bytes m a 0 = Inr []"
| "print_bytes m a (Suc n) =
     (case m a of
        None \<Rightarrow> Inl UnreadableByte
      | Some c \<Rightarrow>
          if c = NUL then Inr []
          else ub_bind (print_bytes m (Suc a) n) (\<lambda>cs. Inr (c # cs)))"

text \<open>
  The conversion \<^verbatim>\<open>%.*s\<close> with \<^verbatim>\<open>len_used\<close> (an \<^verbatim>\<open>unsigned int\<close>) as the precision
  argument. \<^verbatim>\<open>printf\<close> takes the precision as an \<^verbatim>\<open>int\<close>; a value that no \<^verbatim>\<open>int\<close>
  represents is outside what the C standard defines.
\<close>

definition fmt_prec_s :: "c_uint \<Rightarrow> addr \<Rightarrow> world \<Rightarrow> undefined_behaviour + string" where
  "fmt_prec_s prec a w =
     (if unat prec < 2 ^ 31 then print_bytes (byte_heap w) a (unat prec)
      else Inl PrecisionNotInt)"

text \<open>\<^verbatim>\<open>printf\<close> of an already formatted text: it goes to the end of standard output.\<close>

definition printf :: "string \<Rightarrow> world \<Rightarrow> world" where
  "printf text w = w\<lparr>stdout := stdout w @ text\<rparr>"

subsection \<open>The routine\<close>

definition expectedargs :: c_int where
  "expectedargs = 3"

definition expectedval :: c_int where
  "expectedval = 42"

definition expectedbuf1 :: string where
  "expectedbuf1 = ''Buffer one''"

definition expectedbuf2 :: string where
  "expectedbuf2 = ''Buffer two''"

definition debugFlag :: int where
  "debugFlag = 0"

text \<open>
  The condition of lines 56 and 73,
  \<^verbatim>\<open>(buft->len_used != strlen(expected)) || (0 != memcmp(expected, buft->buf_addr, buft->len_used))\<close>.
  The operator \<^verbatim>\<open>||\<close> evaluates its right operand only when the left one is false.
\<close>

definition content_is_wrong ::
  "string \<Rightarrow> ydb_buffer_t \<Rightarrow> world \<Rightarrow> undefined_behaviour + bool" where
  "content_is_wrong expected buft w =
     (if unat (len_used buft) \<noteq> strlen expected then Inr True
      else ub_bind (memcmp expected (byte_heap w) (buf_addr buft) (unat (len_used buft)))
             (\<lambda>c. Inr (0 \<noteq> c)))"

text \<open>The four \<^verbatim>\<open>printf\<close> calls of a debug block (lines 51-54 and 68-71).\<close>

definition debug_block :: "string \<Rightarrow> addr \<Rightarrow> ydb_buffer_t \<Rightarrow> world \<Rightarrow> world" where
  "debug_block name p b w =
     printf (''VPLST:   len_used:       '' @ fmt_d (len_used b) @ ''\<newline>'')
       (printf (''VPLST:   len_alloc:      '' @ fmt_d (len_alloc b) @ ''\<newline>'')
          (printf (''VPLST:   buf_addr:       0x'' @ fmt_016lx (buf_addr b) @ ''\<newline>'')
             (printf (''VPLST: Address of '' @ name @ '': 0x'' @ fmt_016lx p @ ''\<newline>'') w)))"

text \<open>
  The \<^verbatim>\<open>else if (debugFlag)\<close> branch of lines 61-62 and 78-79, followed by the
  \<^verbatim>\<open>if (debugFlag)\<close> of lines 63-64 and 80-81.
\<close>

definition debug_value :: "ydb_buffer_t \<Rightarrow> world \<Rightarrow> undefined_behaviour + world" where
  "debug_value b w =
     (if debugFlag \<noteq> 0 then
        ub_bind (fmt_prec_s (len_used b) (buf_addr b) w) (\<lambda>shown.
          Inr (printf ''VPLST:\<newline>''
                 (printf (''VPLST:   value:          '' @ shown @ ''\<newline>'') w)))
      else Inr w)"

text \<open>
  \<^verbatim>\<open>int YdB_vArIaDiC_pLiSt_TeSt(int argcnt, ...)\<close>, lines 29-84. The result is the value
  returned together with the store after the call, or the undefined behaviour met.
\<close>

definition YdB_vArIaDiC_pLiSt_TeSt ::
  "c_int \<Rightarrow> slot list \<Rightarrow> world \<Rightarrow> undefined_behaviour + (c_int \<times> world)" where
  "YdB_vArIaDiC_pLiSt_TeSt argcnt args w =
     (if argcnt \<noteq> expectedargs then
        Inr (1, printf (''VPLST: FAIL test - Argument count is wrong - expected arg cont ''
                        @ fmt_d expectedargs @ '' but received '' @ fmt_d argcnt @ ''\<newline>'') w)
      else
        ub_bind (va_arg_int (va_start args)) (\<lambda>(num, var1).
        if expectedval \<noteq> num then
          Inr (1, printf (''VPLST: FAIL test - First parameter is wrong - expected ''
                          @ fmt_d expectedval @ '' but received '' @ fmt_d num @ ''\<newline>'') w)
        else
          ub_bind (va_arg_ptr var1) (\<lambda>(buft1, var2).
          ub_bind (deref w buft1) (\<lambda>b1.
          let w1 = (if debugFlag \<noteq> 0
                    then debug_block ''buft1'' buft1 b1 (printf ''VPLST:\<newline>'' w) else w) in
          ub_bind (content_is_wrong expectedbuf1 b1 w1) (\<lambda>wrong1.
          if wrong1 then
            ub_bind (fmt_prec_s (len_used b1) (buf_addr b1) w1) (\<lambda>received.
            Inr (1, printf (''VPLST: FAIL test - Buffer1 content is wrong - expected ''
                            @ c_string expectedbuf1 @ '' but received '' @ received
                            @ ''\<newline>'') w1))
          else
            ub_bind (debug_value b1 w1) (\<lambda>w2.
            ub_bind (va_arg_ptr var2) (\<lambda>(buft2, var3).
            ub_bind (deref w2 buft2) (\<lambda>b2.
            let w3 = (if debugFlag \<noteq> 0 then debug_block ''buft2'' buft2 b2 w2 else w2) in
            ub_bind (content_is_wrong expectedbuf2 b2 w3) (\<lambda>wrong2.
            if wrong2 then
              ub_bind (fmt_prec_s (len_used b2) (buf_addr b2) w3) (\<lambda>received.
              Inr (1, printf (''VPLST: FAIL test - Buffer2 content is wrong - expected ''
                              @ c_string expectedbuf2 @ '' but received '' @ received
                              @ ''\<newline>'') w3))
            else
              ub_bind (debug_value b2 w3) (\<lambda>w4. Inr (0, w4)))))))))))"

subsection \<open>Calls on which every read is defined\<close>

text \<open>
  A buffer structure the routine can inspect and print: its used length is a value of
  \<^verbatim>\<open>int\<close> and that many bytes at its address are readable.
\<close>

definition readable_buffer :: "world \<Rightarrow> addr \<Rightarrow> bool" where
  "readable_buffer w p =
     (case desc_heap w p of
        None \<Rightarrow> False
      | Some b \<Rightarrow> unat (len_used b) < 2 ^ 31
                 \<and> read_bytes (byte_heap w) (buf_addr b) (unat (len_used b)) \<noteq> None)"

text \<open>
  The calls the routine is written for: an \<^verbatim>\<open>int\<close> followed by two pointers to buffer
  structures that can be inspected.
\<close>

fun well_formed_call :: "slot list \<Rightarrow> world \<Rightarrow> bool" where
  "well_formed_call [IntSlot n, PtrSlot p1, PtrSlot p2] w =
     (readable_buffer w p1 \<and> readable_buffer w p2)"
| "well_formed_call args w = False"

subsection \<open>What a caller observes\<close>

text \<open>The value returned and the text on standard output, or the undefined behaviour.\<close>

definition observable ::
  "undefined_behaviour + (c_int \<times> world) \<Rightarrow> undefined_behaviour + (c_int \<times> string)" where
  "observable r = (case r of Inl e \<Rightarrow> Inl e | Inr (rv, w) \<Rightarrow> Inr (rv, stdout w))"

text \<open>
  Two stores that differ at most in the \<^verbatim>\<open>len_alloc\<close> fields of their buffer structures:
  once these fields are overwritten with zero, the structures at every address agree.
\<close>

definition same_but_len_alloc :: "world \<Rightarrow> world \<Rightarrow> bool" where
  "same_but_len_alloc w w' =
     (byte_heap w' = byte_heap w \<and> stdout w' = stdout w
      \<and> (\<forall>p. map_option (\<lambda>b. b\<lparr>len_alloc := 0\<rparr>) (desc_heap w' p)
             = map_option (\<lambda>b. b\<lparr>len_alloc := 0\<rparr>) (desc_heap w p)))"

text \<open>The store with every \<^verbatim>\<open>len_alloc\<close> field overwritten with zero.\<close>

definition zero_alloc :: "world \<Rightarrow> world" where
  "zero_alloc w = w\<lparr>desc_heap := \<lambda>p. map_option (\<lambda>b. b\<lparr>len_alloc := 0\<rparr>) (desc_heap w p)\<rparr>"

subsection \<open>The parameter list builder and the generic consumer\<close>

text \<open>
  Modelled from the spec: the builder that fills a parameter list on the Go side
  (\<^verbatim>\<open>create\<close>, \<^verbatim>\<open>append\<close>, \<^verbatim>\<open>asRawHandle\<close> of spec section 4.2) is not among the
  sources. A list has a capacity, a count and its slots in the order of appending
  (section 3: "an ordered sequence of Parameter Slots plus a count").
\<close>

datatype builder_error = AllocationFailure | CapacityExceeded

record param_list =
  pl_capacity :: nat
  pl_count :: nat
  pl_slots :: "slot list"

text \<open>
  Modelled from the spec: \<^verbatim>\<open>create(capacity)\<close> "allocates storage for at most capacity
  slots" and "fails with AllocationFailure if storage cannot be obtained". The number of
  slots the allocator can provide is the parameter \<open>avail\<close>.
\<close>

definition create_list :: "nat \<Rightarrow> nat \<Rightarrow> builder_error + param_list" where
  "create_list avail capacity =
     (if capacity \<le> avail then Inr \<lparr>pl_capacity = capacity, pl_count = 0, pl_slots = []\<rparr>
      else Inl AllocationFailure)"

text \<open>
  Modelled from the spec: \<^verbatim>\<open>append(value)\<close> "appends a new slot, advancing the count" and
  "fails with CapacityExceeded if count would exceed the list's allocated capacity".
\<close>

definition append_slot :: "slot \<Rightarrow> param_list \<Rightarrow> builder_error + param_list" where
  "append_slot v pl =
     (if pl_count pl < pl_capacity pl
      then Inr (pl\<lparr>pl_count := Suc (pl_count pl), pl_slots := pl_slots pl @ [v]\<rparr>)
      else Inl CapacityExceeded)"

text \<open>A sequence of \<^verbatim>\<open>append\<close> calls, in order, stopping at the first failure.\<close>

fun append_all :: "slot list \<Rightarrow> param_list \<Rightarrow> builder_error + param_list" where
  "append_all [] pl = Inr pl"
| "append_all (v # vs) pl =
     (case append_slot v pl of Inl e \<Rightarrow> Inl e | Inr pl' \<Rightarrow> append_all vs pl')"

text \<open>
  Modelled from the spec: \<^verbatim>\<open>asRawHandle()\<close> "exposes the underlying pointer and count for
  passing across the language boundary".
\<close>

definition asRawHandle :: "param_list \<Rightarrow> nat \<times> slot list" where
  "asRawHandle pl = (pl_count pl, pl_slots pl)"

text \<open>
  Modelled from the spec: a consumer's expectation of the type at each position (the
  "calling signature" of section 4.3), and \<^verbatim>\<open>invoke(argCount, parameterList)\<close>: the count
  is validated first, then the arguments are pulled off the cursor in order, each with the
  \<^verbatim>\<open>va_arg\<close> of the type the consumer expects there. The pulls are those of the source
  (\<^verbatim>\<open>va_arg(var, int)\<close>, \<^verbatim>\<open>va_arg(var, ydb_buffer_t *)\<close>, lines 41, 47 and 65).
\<close>

datatype kind = IntKind | PtrKind

fun kind_of :: "slot \<Rightarrow> kind" where
  "kind_of (IntSlot n) = IntKind"
| "kind_of (PtrSlot p) = PtrKind"

fun pull :: "kind \<Rightarrow> va_list \<Rightarrow> undefined_behaviour + (slot \<times> va_list)" where
  "pull IntKind ap = ub_bind (va_arg_int ap) (\<lambda>(n, ap'). Inr (IntSlot n, ap'))"
| "pull PtrKind ap = ub_bind (va_arg_ptr ap) (\<lambda>(p, ap'). Inr (PtrSlot p, ap'))"

fun pull_all :: "kind list \<Rightarrow> va_list \<Rightarrow> undefined_behaviour + slot list" where
  "pull_all [] ap = Inr []"
| "pull_all (k # ks) ap =
     ub_bind (pull k ap) (\<lambda>(v, ap'). ub_bind (pull_all ks ap') (\<lambda>vs. Inr (v # vs)))"

datatype invoke_result = CountMismatch | Undefined undefined_behaviour | Consumed "slot list"

definition invoke :: "kind list \<Rightarrow> nat \<Rightarrow> slot list \<Rightarrow> invoke_result" where
  "invoke expected argCount slots =
     (if argCount \<noteq> length expected then CountMismatch
      else case pull_all expected (va_start slots) of
             Inl e \<Rightarrow> Undefined e
           | Inr vs \<Rightarrow> Consumed vs)"

subsection \<open>A sample store\<close>

text \<open>The bytes of \<open>s\<close> placed at address \<open>a\<close>, and nothing else.\<close>

definition place_bytes :: "addr \<Rightarrow> string \<Rightarrow> (addr \<rightharpoonup> char)" where
  "place_bytes a s = (\<lambda>x. if a \<le> x \<and> x < a + length s then Some (s ! (x - a)) else None)"

text \<open>
  Two buffer structures at addresses 100 and 200, with used lengths \<open>n1\<close> and \<open>n2\<close>,
  whose bytes \<open>s1\<close> and \<open>s2\<close> lie one after the other from address 1000 on.
\<close>

definition sample_world :: "string \<Rightarrow> c_uint \<Rightarrow> string \<Rightarrow> c_uint \<Rightarrow> world" where
  "sample_world s1 n1 s2 n2 =
     \<lparr>desc_heap = [100 \<mapsto> \<lparr>len_alloc = 10, len_used = n1, buf_addr = 1000\<rparr>,
                   200 \<mapsto> \<lparr>len_alloc = 10, len_used = n2, buf_addr = 1000 + length s1\<rparr>],
      byte_heap = place_bytes 1000 (s1 @ s2),
      stdout = []\<rparr>"

section \<open>Basic facts\<close>

lemma ub_bind_Inl [simp]: "ub_bind (Inl e) f = Inl e"
  by (simp add: ub_bind_def)

lemma ub_bind_Inr [simp]: "ub_bind (Inr x) f = f x"
  by (simp add: ub_bind_def)

lemma strlen_expectedbuf1 [simp]: "strlen expectedbuf1 = 10"
  by (simp add: strlen_def c_string_def expectedbuf1_def NUL_def)

lemma strlen_expectedbuf2 [simp]: "strlen expectedbuf2 = 10"
  by (simp add: strlen_def c_string_def expectedbuf2_def NUL_def)

lemma c_string_expectedbuf1 [simp]: "c_string expectedbuf1 = ''Buffer one''"
  by (simp add: c_string_def expectedbuf1_def NUL_def)

lemma c_string_expectedbuf2 [simp]: "c_string expectedbuf2 = ''Buffer two''"
  by (simp add: c_string_def expectedbuf2_def NUL_def)

lemma fmt_d_3 [simp]: "fmt_d 3 = ''3''"
  by (simp add: fmt_d_def dec_digits.simps dec_digit_def)

lemma fmt_d_42 [simp]: "fmt_d 42 = ''42''"
  by (simp add: fmt_d_def dec_digits.simps dec_digit_def)

lemma fmt_d_41 [simp]: "fmt_d 41 = ''41''"
  by (simp add: fmt_d_def dec_digits.simps dec_digit_def)

lemma read_bytes_length: "read_bytes m a n = Some s \<Longrightarrow> length s = n"
  by (induction n arbitrary: a s) (auto split: option.splits)

lemma read_bytes_take:
  "read_bytes m a n = Some s \<Longrightarrow> k \<le> n \<Longrightarrow> read_bytes m a k = Some (take k s)"
proof (induction k arbitrary: a n s)
  case 0
  then show ?case by simp
next
  case (Suc k)
  then obtain n' where n: "n = Suc n'" by (cases n) auto
  with Suc.prems obtain c s' where c: "m a = Some c" and s': "read_bytes m (Suc a) n' = Some s'"
    and s: "s = c # s'"
    by (auto split: option.splits)
  from Suc.IH [OF s'] Suc.prems n have "read_bytes m (Suc a) k = Some (take k s')" by simp
  with c s show ?case by simp
qed

lemma print_bytes_of_read:
  "read_bytes m a n = Some s \<Longrightarrow> NUL \<notin> set s \<Longrightarrow> print_bytes m a n = Inr s"
  by (induction n arbitrary: a s) (auto split: option.splits)

lemma print_bytes_defined:
  "read_bytes m a n = Some s \<Longrightarrow> \<exists>t. print_bytes m a n = Inr t"
proof (induction n arbitrary: a s)
  case 0
  then show ?case by simp
next
  case (Suc n)
  then obtain c s' where c: "m a = Some c" and s': "read_bytes m (Suc a) n = Some s'"
    by (auto split: option.splits)
  from Suc.IH [OF s'] obtain t where "print_bytes m (Suc a) n = Inr t" by blast
  with c show ?case by simp
qed

lemma compare_bytes_eq_0:
  "length xs = length ys \<Longrightarrow> compare_bytes xs ys = 0 \<longleftrightarrow> xs = ys"
  by (induction xs ys rule: compare_bytes.induct) auto

lemmas routine_defs =
  YdB_vArIaDiC_pLiSt_TeSt_def va_start_def va_arg_int_def va_arg_ptr_def deref_def
  debug_value_def debugFlag_def printf_def expectedargs_def expectedval_def

text \<open>The three outcomes of the condition of lines 56 and 73.\<close>

lemma content_ok:
  assumes "unat (len_used b) = n" and "read_bytes (byte_heap w) (buf_addr b) n = Some lit"
    and "strlen lit = n"
  shows "content_is_wrong lit b w = Inr False"
proof -
  have "length lit = n" using assms(2) by (rule read_bytes_length)
  then show ?thesis
    using assms by (simp add: content_is_wrong_def memcmp_def compare_bytes_eq_0)
qed

lemma content_differs:
  assumes "unat (len_used b) = n" and "read_bytes (byte_heap w) (buf_addr b) n = Some s"
    and "strlen lit = n" and "length lit = n" and "s \<noteq> lit"
  shows "content_is_wrong lit b w = Inr True"
proof -
  have "length s = length lit" using assms(2,4) by (simp add: read_bytes_length)
  then have "compare_bytes lit s \<noteq> 0" using assms(5) by (auto simp: compare_bytes_eq_0)
  then show ?thesis using assms by (simp add: content_is_wrong_def memcmp_def)
qed

lemma length_wrong:
  "unat (len_used b) \<noteq> strlen lit \<Longrightarrow> content_is_wrong lit b w = Inr True"
  by (simp add: content_is_wrong_def)

text \<open>Reading back what the sample store holds.\<close>

lemma read_bytes_place_bytes:
  "i + n \<le> length s \<Longrightarrow> read_bytes (place_bytes a s) (a + i) n = Some (take n (drop i s))"
proof (induction n arbitrary: i)
  case 0
  then show ?case by simp
next
  case (Suc n)
  then have i: "i < length s" and rest: "Suc i + n \<le> length s" by simp_all
  have "read_bytes (place_bytes a s) (a + Suc i) n = Some (take n (drop (Suc i) s))"
    using Suc.IH [OF rest] .
  moreover have "place_bytes a s (a + i) = Some (s ! i)"
    using i by (simp add: place_bytes_def)
  moreover have "take (Suc n) (drop i s) = s ! i # take n (drop (Suc i) s)"
    using i by (simp add: Cons_nth_drop_Suc [symmetric])
  ultimately show ?case by simp
qed

lemma sample_world_buf1:
  "length s1 = 10 \<Longrightarrow>
   read_bytes (byte_heap (sample_world s1 n1 s2 n2)) 1000 10 = Some s1"
  using read_bytes_place_bytes [of 0 10 "s1 @ s2" 1000] by (simp add: sample_world_def)

lemma sample_world_buf2:
  "length s1 = 10 \<Longrightarrow> length s2 = 10 \<Longrightarrow>
   read_bytes (byte_heap (sample_world s1 n1 s2 n2)) 1010 10 = Some s2"
  using read_bytes_place_bytes [of 10 10 "s1 @ s2" 1000] by (simp add: sample_world_def)

section \<open>The outcomes of the routine\<close>

text \<open>
  Every way in which the routine returns: with 0 and the store as it was, or with 1 and
  one diagnostic appended to standard output, from the check that failed.
\<close>

lemma routine_shape:
  assumes "YdB_vArIaDiC_pLiSt_TeSt argcnt args w = Inr (rv, w')"
  shows "(rv = 0 \<and> w' = w)
    \<or> (rv = 1 \<and> argcnt \<noteq> 3 \<and> w' = w\<lparr>stdout := stdout w @
          ''VPLST: FAIL test - Argument count is wrong - expected arg cont 3 but received ''
          @ fmt_d argcnt @ ''\<newline>''\<rparr>)
    \<or> (rv = 1 \<and> argcnt = 3 \<and> (\<exists>num rest. args = IntSlot num # rest \<and> num \<noteq> 42
          \<and> w' = w\<lparr>stdout := stdout w @
          ''VPLST: FAIL test - First parameter is wrong - expected 42 but received ''
          @ fmt_d num @ ''\<newline>''\<rparr>))
    \<or> (rv = 1 \<and> argcnt = 3 \<and> (\<exists>p1 rest b1 received. args = IntSlot 42 # PtrSlot p1 # rest
          \<and> desc_heap w p1 = Some b1 \<and> content_is_wrong expectedbuf1 b1 w = Inr True
          \<and> fmt_prec_s (len_used b1) (buf_addr b1) w = Inr received
          \<and> w' = w\<lparr>stdout := stdout w @
          ''VPLST: FAIL test - Buffer1 content is wrong - expected Buffer one but received ''
          @ received @ ''\<newline>''\<rparr>))
    \<or> (rv = 1 \<and> argcnt = 3 \<and> (\<exists>p1 p2 rest b1 b2 received.
          args = IntSlot 42 # PtrSlot p1 # PtrSlot p2 # rest
          \<and> desc_heap w p1 = Some b1 \<and> content_is_wrong expectedbuf1 b1 w = Inr False
          \<and> desc_heap w p2 = Some b2 \<and> content_is_wrong expectedbuf2 b2 w = Inr True
          \<and> fmt_prec_s (len_used b2) (buf_addr b2) w = Inr received
          \<and> w' = w\<lparr>stdout := stdout w @
          ''VPLST: FAIL test - Buffer2 content is wrong - expected Buffer two but received ''
          @ received @ ''\<newline>''\<rparr>))"
proof (cases "argcnt = 3")
  case False
  then show ?thesis
    using assms by (auto simp: YdB_vArIaDiC_pLiSt_TeSt_def expectedargs_def printf_def)
next
  case True
  show ?thesis
  proof (cases args)
    case Nil
    then show ?thesis using assms True by (simp add: routine_defs)
  next
    case (Cons x rest)
    show ?thesis
    proof (cases x)
      case (PtrSlot p)
      then show ?thesis using assms True Cons by (simp add: routine_defs)
    next
      case (IntSlot num)
      show ?thesis
      proof (cases "num = 42")
        case False
        then show ?thesis using assms True Cons IntSlot by (auto simp: routine_defs)
      next
        case n42: True
        show ?thesis
          using assms True Cons IntSlot n42
          apply (cases rest)
           apply (simp add: routine_defs)
          subgoal for y rest2
            apply (cases y)
             apply (simp add: routine_defs)
            apply (cases rest2)
            apply (auto simp: routine_defs ub_bind_def split: sum.splits option.splits if_splits slot.splits)
            done
          done
      qed
    qed
  qed
qed


text \<open>On a well-formed call every read is defined, so the routine returns.\<close>

lemma strlen_le_length: "strlen lit \<le> length lit"
  by (simp add: strlen_def c_string_def length_takeWhile_le)

lemma content_is_wrong_defined:
  assumes "read_bytes (byte_heap w) (buf_addr b) (unat (len_used b)) = Some s"
  shows "\<exists>c. content_is_wrong lit b w = Inr c"
  using assms strlen_le_length [of lit]
  by (auto simp: content_is_wrong_def memcmp_def)

lemma fmt_prec_s_defined:
  assumes "unat n < 2 ^ 31" and "read_bytes (byte_heap w) a (unat n) = Some s"
  shows "\<exists>t. fmt_prec_s n a w = Inr t"
  using assms print_bytes_defined [of "byte_heap w" a "unat n" s]
  by (simp add: fmt_prec_s_def)

lemma well_formed_returns:
  assumes "well_formed_call args w"
  shows "\<exists>rv w'. YdB_vArIaDiC_pLiSt_TeSt argcnt args w = Inr (rv, w')"
proof -
  from assms obtain n p1 p2 where args: "args = [IntSlot n, PtrSlot p1, PtrSlot p2]"
    and r1: "readable_buffer w p1" and r2: "readable_buffer w p2"
    by (cases "(args, w)" rule: well_formed_call.cases) auto
  from r1 obtain b1 s1 where b1: "desc_heap w p1 = Some b1" and i1: "unat (len_used b1) < 2 ^ 31"
    and s1: "read_bytes (byte_heap w) (buf_addr b1) (unat (len_used b1)) = Some s1"
    by (auto simp: readable_buffer_def split: option.splits)
  from r2 obtain b2 s2 where b2: "desc_heap w p2 = Some b2" and i2: "unat (len_used b2) < 2 ^ 31"
    and s2: "read_bytes (byte_heap w) (buf_addr b2) (unat (len_used b2)) = Some s2"
    by (auto simp: readable_buffer_def split: option.splits)
  obtain c1 where c1: "content_is_wrong expectedbuf1 b1 w = Inr c1"
    using content_is_wrong_defined [OF s1] by blast
  obtain c2 where c2: "content_is_wrong expectedbuf2 b2 w = Inr c2"
    using content_is_wrong_defined [OF s2] by blast
  obtain t1 where t1: "fmt_prec_s (len_used b1) (buf_addr b1) w = Inr t1"
    using fmt_prec_s_defined [OF i1 s1] by blast
  obtain t2 where t2: "fmt_prec_s (len_used b2) (buf_addr b2) w = Inr t2"
    using fmt_prec_s_defined [OF i2 s2] by blast
  show ?thesis
    using args b1 b2 c1 c2 t1 t2 by (simp add: routine_defs)
qed


text \<open>The routine does not look at \<^verbatim>\<open>len_alloc\<close>.\<close>

lemma deref_zero_alloc:
  "deref (zero_alloc w) p = (case deref w p of Inl e \<Rightarrow> Inl e | Inr b \<Rightarrow> Inr (b\<lparr>len_alloc := 0\<rparr>))"
  by (simp add: deref_def zero_alloc_def split: option.splits)

lemma content_is_wrong_zero_alloc:
  "content_is_wrong lit (b\<lparr>len_alloc := x\<rparr>) (zero_alloc w) = content_is_wrong lit b w"
  by (simp add: content_is_wrong_def zero_alloc_def)

lemma fmt_prec_s_zero_alloc:
  "fmt_prec_s n a (zero_alloc w) = fmt_prec_s n a w"
  by (simp add: fmt_prec_s_def zero_alloc_def)

lemma stdout_zero_alloc: "stdout (zero_alloc w) = stdout w"
  by (simp add: zero_alloc_def)

lemmas zero_alloc_simps =
  YdB_vArIaDiC_pLiSt_TeSt_def expectedargs_def expectedval_def observable_def
  deref_zero_alloc content_is_wrong_zero_alloc fmt_prec_s_zero_alloc stdout_zero_alloc
  debugFlag_def debug_value_def printf_def Let_def

lemma observable_zero_alloc:
  "observable (YdB_vArIaDiC_pLiSt_TeSt argcnt args (zero_alloc w))
   = observable (YdB_vArIaDiC_pLiSt_TeSt argcnt args w)"
proof (cases "argcnt = 3")
  case False
  then show ?thesis by (simp add: zero_alloc_simps)
next
  case a3: True
  show ?thesis
  proof (cases "va_arg_int (va_start args)")
    case (Inl e)
    then show ?thesis using a3 by (simp add: zero_alloc_simps)
  next
    case (Inr nv)
    then obtain num var1 where nv: "va_arg_int (va_start args) = Inr (num, var1)"
      by (cases nv) simp
    show ?thesis
    proof (cases "num = 42")
      case False
      then show ?thesis using a3 nv by (simp add: zero_alloc_simps)
    next
      case n42: True
      show ?thesis
      proof (cases "va_arg_ptr var1")
        case (Inl e)
        then show ?thesis using a3 nv n42 by (simp add: zero_alloc_simps)
      next
        case (Inr pv)
        then obtain buft1 var2 where p1: "va_arg_ptr var1 = Inr (buft1, var2)"
          by (cases pv) simp
        show ?thesis
        proof (cases "deref w buft1")
          case (Inl e)
          then show ?thesis using a3 nv n42 p1 by (simp add: zero_alloc_simps)
        next
          case d1: (Inr b1)
          show ?thesis
          proof (cases "content_is_wrong expectedbuf1 b1 w")
            case (Inl e)
            then show ?thesis using a3 nv n42 p1 d1 by (simp add: zero_alloc_simps)
          next
            case c1: (Inr wrong1)
            show ?thesis
            proof (cases wrong1)
              case True
              then show ?thesis
                using a3 nv n42 p1 d1 c1
                by (cases "fmt_prec_s (len_used b1) (buf_addr b1) w")
                  (simp_all add: zero_alloc_simps)
            next
              case w1: False
              show ?thesis
              proof (cases "va_arg_ptr var2")
                case (Inl e)
                then show ?thesis using a3 nv n42 p1 d1 c1 w1 by (simp add: zero_alloc_simps)
              next
                case (Inr qv)
                then obtain buft2 var3 where p2: "va_arg_ptr var2 = Inr (buft2, var3)"
                  by (cases qv) simp
                show ?thesis
                proof (cases "deref w buft2")
                  case (Inl e)
                  then show ?thesis
                    using a3 nv n42 p1 d1 c1 w1 p2 by (simp add: zero_alloc_simps)
                next
                  case d2: (Inr b2)
                  show ?thesis
                  proof (cases "content_is_wrong expectedbuf2 b2 w")
                    case (Inl e)
                    then show ?thesis
                      using a3 nv n42 p1 d1 c1 w1 p2 d2 by (simp add: zero_alloc_simps)
                  next
                    case c2: (Inr wrong2)
                    show ?thesis
                      using a3 nv n42 p1 d1 c1 w1 p2 d2 c2
                      by (cases wrong2; cases "fmt_prec_s (len_used b2) (buf_addr b2) w")
                        (simp_all add: zero_alloc_simps)
                  qed
                qed
              qed
            qed
          qed
        qed
      qed
    qed
  qed
qed

lemma zero_alloc_eq:
  assumes "same_but_len_alloc w w'"
  shows "zero_alloc w' = zero_alloc w"
proof -
  have "(\<lambda>p. map_option (\<lambda>b. b\<lparr>len_alloc := 0\<rparr>) (desc_heap w' p))
      = (\<lambda>p. map_option (\<lambda>b. b\<lparr>len_alloc := 0\<rparr>) (desc_heap w p))"
    using assms by (auto simp: same_but_len_alloc_def)
  moreover have "byte_heap w' = byte_heap w" "stdout w' = stdout w" "world.more w' = world.more w"
    using assms by (simp_all add: same_but_len_alloc_def)
  ultimately show ?thesis
    by (simp add: zero_alloc_def)
qed

text \<open>Two calls on the sample store, one that succeeds and one that fails.\<close>

lemma sample_success:
  "YdB_vArIaDiC_pLiSt_TeSt 3 [IntSlot 42, PtrSlot 100, PtrSlot 200]
     (sample_world ''Buffer one'' 10 ''Buffer two'' 10)
   = Inr (0, sample_world ''Buffer one'' 10 ''Buffer two'' 10)"
proof -
  let ?w = "sample_world ''Buffer one'' 10 ''Buffer two'' 10"
  let ?b1 = "\<lparr>len_alloc = 10, len_used = 10, buf_addr = 1000\<rparr>"
  let ?b2 = "\<lparr>len_alloc = 10, len_used = 10, buf_addr = 1010\<rparr>"
  have d: "desc_heap ?w 100 = Some ?b1" "desc_heap ?w 200 = Some ?b2"
    by (simp_all add: sample_world_def)
  have r1: "read_bytes (byte_heap ?w) (buf_addr ?b1) 10 = Some expectedbuf1"
    by (simp add: sample_world_buf1 expectedbuf1_def)
  have c1: "content_is_wrong expectedbuf1 ?b1 ?w = Inr False"
    using r1 by (rule content_ok [rotated]) simp_all
  have r2: "read_bytes (byte_heap ?w) (buf_addr ?b2) 10 = Some expectedbuf2"
    by (simp add: sample_world_buf2 expectedbuf2_def)
  have c2: "content_is_wrong expectedbuf2 ?b2 ?w = Inr False"
    using r2 by (rule content_ok [rotated]) simp_all
  show ?thesis using d c1 c2 by (simp add: routine_defs)
qed

lemma sample_failure:
  "YdB_vArIaDiC_pLiSt_TeSt 3 [IntSlot 42, PtrSlot 100, PtrSlot 200]
     (sample_world ''Buffer one'' 10 ''Buffer TWO'' 10)
   = Inr (1, (sample_world ''Buffer one'' 10 ''Buffer TWO'' 10)\<lparr>stdout :=
       ''VPLST: FAIL test - Buffer2 content is wrong - expected Buffer two but received Buffer TWO\<newline>''\<rparr>)"
proof -
  let ?w = "sample_world ''Buffer one'' 10 ''Buffer TWO'' 10"
  let ?b1 = "\<lparr>len_alloc = 10, len_used = 10, buf_addr = 1000\<rparr>"
  let ?b2 = "\<lparr>len_alloc = 10, len_used = 10, buf_addr = 1010\<rparr>"
  have d: "desc_heap ?w 100 = Some ?b1" "desc_heap ?w 200 = Some ?b2"
    by (simp_all add: sample_world_def)
  have r1: "read_bytes (byte_heap ?w) (buf_addr ?b1) 10 = Some expectedbuf1"
    by (simp add: sample_world_buf1 expectedbuf1_def)
  have c1: "content_is_wrong expectedbuf1 ?b1 ?w = Inr False"
    using r1 by (rule content_ok [rotated]) simp_all
  have r2: "read_bytes (byte_heap ?w) (buf_addr ?b2) 10 = Some ''Buffer TWO''"
    by (simp add: sample_world_buf2)
  have c2: "content_is_wrong expectedbuf2 ?b2 ?w = Inr True"
    using r2 by (rule content_differs [rotated])
      (simp_all add: expectedbuf2_def strlen_def c_string_def NUL_def)
  have "print_bytes (byte_heap ?w) (buf_addr ?b2) 10 = Inr ''Buffer TWO''"
    using r2 by (rule print_bytes_of_read) (simp add: NUL_def)
  then have p: "fmt_prec_s (len_used ?b2) (buf_addr ?b2) ?w = Inr ''Buffer TWO''"
    by (simp add: fmt_prec_s_def)
  have "stdout ?w = []" by (simp add: sample_world_def)
  then show ?thesis using d c1 c2 p by (simp add: routine_defs)
qed

lemma sample_well_formed:
  assumes "length s1 = 10" and "length s2 = 10"
  shows "well_formed_call [IntSlot n, PtrSlot 100, PtrSlot 200] (sample_world s1 10 s2 10)"
proof -
  have "readable_buffer (sample_world s1 10 s2 10) 100"
    using sample_world_buf1 [OF assms(1), of 10 s2 10]
    by (simp add: readable_buffer_def sample_world_def)
  moreover have "readable_buffer (sample_world s1 10 s2 10) 200"
    using sample_world_buf2 [OF assms, of 10 10] assms(1)
    by (simp add: readable_buffer_def sample_world_def)
  ultimately show ?thesis by simp
qed

text \<open>Appending within the capacity, and pulling back from any cursor position.\<close>

lemma append_all_ok:
  "pl_count pl + length xs \<le> pl_capacity pl \<Longrightarrow>
   append_all xs pl =
     Inr (pl\<lparr>pl_count := pl_count pl + length xs, pl_slots := pl_slots pl @ xs\<rparr>)"
proof (induction xs arbitrary: pl)
  case Nil
  then show ?case by simp
next
  case (Cons x xs)
  let ?pl' = "pl\<lparr>pl_count := Suc (pl_count pl), pl_slots := pl_slots pl @ [x]\<rparr>"
  have a: "append_slot x pl = Inr ?pl'"
    using Cons.prems by (simp add: append_slot_def)
  have "pl_count ?pl' + length xs \<le> pl_capacity ?pl'"
    using Cons.prems by simp
  from Cons.IH [OF this] a show ?case by simp
qed

lemma pull_at:
  "i < length xs \<Longrightarrow>
   pull (kind_of (xs ! i)) \<lparr>ap_slots = xs, ap_next = i\<rparr>
     = Inr (xs ! i, \<lparr>ap_slots = xs, ap_next = Suc i\<rparr>)"
  by (cases "xs ! i") (simp_all add: va_arg_int_def va_arg_ptr_def)

lemma pull_all_from:
  "n = length xs - i \<Longrightarrow> i \<le> length xs \<Longrightarrow>
   pull_all (map kind_of (drop i xs)) \<lparr>ap_slots = xs, ap_next = i\<rparr> = Inr (drop i xs)"
proof (induction n arbitrary: i)
  case 0
  then show ?case by simp
next
  case (Suc n)
  then have i: "i < length xs" by simp
  then have d: "drop i xs = xs ! i # drop (Suc i) xs"
    by (simp add: Cons_nth_drop_Suc)
  have "pull_all (map kind_of (drop (Suc i) xs)) \<lparr>ap_slots = xs, ap_next = Suc i\<rparr>
        = Inr (drop (Suc i) xs)"
    using Suc.prems i by (intro Suc.IH) simp_all
  then show ?case
    using pull_at [OF i] by (simp add: d)
qed

section \<open>The claims\<close>

text \<open>
  C1. For every argument count other than 3 the routine returns 1, having printed the
  count-mismatch diagnostic and nothing else, and it does so whatever the argument slots
  and the store are: the result is the same for an empty slot list and for a store with no
  object in it, on which any pull (\<^verbatim>\<open>va_arg\<close>) or dereference is undefined. So no slot is
  read before the count check has passed.
\<close>

theorem count_mismatch_returns_1:
  assumes "argcnt \<noteq> 3"
  shows "YdB_vArIaDiC_pLiSt_TeSt argcnt args w =
    Inr (1, w\<lparr>stdout := stdout w @
      ''VPLST: FAIL test - Argument count is wrong - expected arg cont 3 but received ''
      @ fmt_d argcnt @ ''\<newline>''\<rparr>)"
  using assms by (simp add: YdB_vArIaDiC_pLiSt_TeSt_def printf_def expectedargs_def)

text \<open>
  The count 2 with no slot at all and an empty store: the routine returns 1, where a pull
  from that slot list is undefined.
\<close>

theorem count_mismatch_returns_1_witness:
  "YdB_vArIaDiC_pLiSt_TeSt 2 [] \<lparr>desc_heap = Map.empty, byte_heap = Map.empty, stdout = []\<rparr> =
     Inr (1, \<lparr>desc_heap = Map.empty, byte_heap = Map.empty, stdout =
       ''VPLST: FAIL test - Argument count is wrong - expected arg cont 3 but received 2\<newline>''\<rparr>)
   \<and> va_arg_int (va_start []) = Inl VaArgPastEnd"
  using count_mismatch_returns_1
    [of 2 "[]" "\<lparr>desc_heap = Map.empty, byte_heap = Map.empty, stdout = []\<rparr>"]
  by (simp add: fmt_d_def dec_digits.simps dec_digit_def va_arg_int_def va_start_def)

text \<open>
  C2. Called with the count 3, the integer 42, a first buffer structure of used length 10
  over the bytes "Buffer one" and a second one of used length 10 over "Buffer two", the
  routine returns 0 (and leaves the store, standard output included, as it was).
\<close>

theorem fixed_scenario_returns_0:
  assumes "desc_heap w p1 = Some b1" and "len_used b1 = 10"
    and "read_bytes (byte_heap w) (buf_addr b1) 10 = Some ''Buffer one''"
    and "desc_heap w p2 = Some b2" and "len_used b2 = 10"
    and "read_bytes (byte_heap w) (buf_addr b2) 10 = Some ''Buffer two''"
  shows "YdB_vArIaDiC_pLiSt_TeSt 3 [IntSlot 42, PtrSlot p1, PtrSlot p2] w = Inr (0, w)"
proof -
  have c1: "content_is_wrong expectedbuf1 b1 w = Inr False"
  proof (rule content_ok)
    show "unat (len_used b1) = 10" using assms(2) by simp
    show "read_bytes (byte_heap w) (buf_addr b1) 10 = Some expectedbuf1"
      using assms(3) by (simp only: expectedbuf1_def)
    show "strlen expectedbuf1 = 10" by simp
  qed
  have c2: "content_is_wrong expectedbuf2 b2 w = Inr False"
  proof (rule content_ok)
    show "unat (len_used b2) = 10" using assms(5) by simp
    show "read_bytes (byte_heap w) (buf_addr b2) 10 = Some expectedbuf2"
      using assms(6) by (simp only: expectedbuf2_def)
    show "strlen expectedbuf2 = 10" by simp
  qed
  show ?thesis
    using assms(1,4) c1 c2 by (simp add: routine_defs)
qed

theorem fixed_scenario_returns_0_witness:
  "YdB_vArIaDiC_pLiSt_TeSt 3 [IntSlot 42, PtrSlot 100, PtrSlot 200]
     (sample_world ''Buffer one'' 10 ''Buffer two'' 10)
   = Inr (0, sample_world ''Buffer one'' 10 ''Buffer two'' 10)"
proof (rule fixed_scenario_returns_0)
  let ?w = "sample_world ''Buffer one'' 10 ''Buffer two'' 10"
  show "desc_heap ?w 100 = Some \<lparr>len_alloc = 10, len_used = 10, buf_addr = 1000\<rparr>"
    by (simp add: sample_world_def)
  show "desc_heap ?w 200 = Some \<lparr>len_alloc = 10, len_used = 10, buf_addr = 1010\<rparr>"
    by (simp add: sample_world_def)
  show "read_bytes (byte_heap ?w) (buf_addr \<lparr>len_alloc = 10, len_used = 10, buf_addr = 1000\<rparr>) 10
        = Some ''Buffer one''"
    by (simp add: sample_world_buf1)
  show "read_bytes (byte_heap ?w) (buf_addr \<lparr>len_alloc = 10, len_used = 10, buf_addr = 1010\<rparr>) 10
        = Some ''Buffer two''"
    by (simp add: sample_world_buf2)
qed simp_all

text \<open>
  C4. Called with the count 3 and the integer 41, the routine returns 1 and prints the
  diagnostic that names the expected value 42 and the received value 41. This holds for
  every store, so in particular when both buffers hold the expected contents.
\<close>

theorem wrong_integer_returns_1:
  "YdB_vArIaDiC_pLiSt_TeSt 3 [IntSlot 41, PtrSlot p1, PtrSlot p2] w =
     Inr (1, w\<lparr>stdout := stdout w @
       ''VPLST: FAIL test - First parameter is wrong - expected 42 but received 41\<newline>''\<rparr>)"
  by (simp add: routine_defs)

theorem wrong_integer_returns_1_witness:
  "observable (YdB_vArIaDiC_pLiSt_TeSt 3 [IntSlot 41, PtrSlot 100, PtrSlot 200]
     (sample_world ''Buffer one'' 10 ''Buffer two'' 10))
   = Inr (1, ''VPLST: FAIL test - First parameter is wrong - expected 42 but received 41\<newline>'')"
  using wrong_integer_returns_1 [of 100 200 "sample_world ''Buffer one'' 10 ''Buffer two'' 10"]
  by (simp add: observable_def sample_world_def)

text \<open>
  C5. Called with the count 3, the integer 42 and a first buffer structure of used length
  10 over the bytes "Buffer ONE", the routine returns 1 and prints the content-mismatch
  diagnostic of buffer one, with the expected and the received text.
\<close>

theorem wrong_content_returns_1:
  assumes "desc_heap w p1 = Some b1" and "len_used b1 = 10"
    and "read_bytes (byte_heap w) (buf_addr b1) 10 = Some ''Buffer ONE''"
  shows "YdB_vArIaDiC_pLiSt_TeSt 3 [IntSlot 42, PtrSlot p1, PtrSlot p2] w =
     Inr (1, w\<lparr>stdout := stdout w @
       ''VPLST: FAIL test - Buffer1 content is wrong - expected Buffer one but received Buffer ONE\<newline>''\<rparr>)"
proof -
  have c1: "content_is_wrong expectedbuf1 b1 w = Inr True"
  proof (rule content_differs)
    show "unat (len_used b1) = 10" using assms(2) by simp
    show "read_bytes (byte_heap w) (buf_addr b1) 10 = Some ''Buffer ONE''" by (rule assms(3))
    show "strlen expectedbuf1 = 10" by simp
    show "length expectedbuf1 = 10" by (simp add: expectedbuf1_def)
    show "''Buffer ONE'' \<noteq> expectedbuf1" by (simp add: expectedbuf1_def)
  qed
  have "print_bytes (byte_heap w) (buf_addr b1) 10 = Inr ''Buffer ONE''"
    using assms(3) by (rule print_bytes_of_read) (simp add: NUL_def)
  then have p: "fmt_prec_s (len_used b1) (buf_addr b1) w = Inr ''Buffer ONE''"
    using assms(2) by (simp add: fmt_prec_s_def)
  show ?thesis
    using assms(1) c1 p by (simp add: routine_defs)
qed

theorem wrong_content_returns_1_witness:
  "observable (YdB_vArIaDiC_pLiSt_TeSt 3 [IntSlot 42, PtrSlot 100, PtrSlot 200]
     (sample_world ''Buffer ONE'' 10 ''Buffer two'' 10))
   = Inr (1, ''VPLST: FAIL test - Buffer1 content is wrong - expected Buffer one but received Buffer ONE\<newline>'')"
proof -
  let ?w = "sample_world ''Buffer ONE'' 10 ''Buffer two'' 10"
  have d: "desc_heap ?w 100 = Some \<lparr>len_alloc = 10, len_used = 10, buf_addr = 1000\<rparr>"
    by (simp add: sample_world_def)
  have r: "read_bytes (byte_heap ?w)
             (buf_addr \<lparr>len_alloc = 10, len_used = 10, buf_addr = 1000\<rparr>) 10 = Some ''Buffer ONE''"
    by (simp add: sample_world_buf1)
  show ?thesis
    using wrong_content_returns_1 [OF d _ r, of 200]
    by (simp add: observable_def sample_world_def)
qed

text \<open>
  C6. Called with the count 3, the integer 42, a correct first buffer and a second buffer
  structure whose used length is 9 while its bytes are still "Buffer two", the routine
  returns 1 (the diagnostic shows the nine bytes "Buffer tw"). The length comparison comes
  first and decides alone: the condition of line 73 is true on every store, also on one
  where no byte is readable, on which the \<^verbatim>\<open>memcmp\<close> of that line would be undefined.
  So \<^verbatim>\<open>memcmp\<close> does not run over a length that failed the length check.
\<close>

theorem short_length_returns_1:
  assumes "desc_heap w p1 = Some b1" and "len_used b1 = 10"
    and "read_bytes (byte_heap w) (buf_addr b1) 10 = Some ''Buffer one''"
    and "desc_heap w p2 = Some b2" and "len_used b2 = 9"
    and "read_bytes (byte_heap w) (buf_addr b2) 10 = Some ''Buffer two''"
  shows "YdB_vArIaDiC_pLiSt_TeSt 3 [IntSlot 42, PtrSlot p1, PtrSlot p2] w =
     Inr (1, w\<lparr>stdout := stdout w @
       ''VPLST: FAIL test - Buffer2 content is wrong - expected Buffer two but received Buffer tw\<newline>''\<rparr>)
   \<and> content_is_wrong expectedbuf2 b2 (w\<lparr>byte_heap := Map.empty\<rparr>) = Inr True
   \<and> memcmp expectedbuf2 Map.empty (buf_addr b2) (unat (len_used b2)) = Inl UnreadableByte"
proof -
  have c1: "content_is_wrong expectedbuf1 b1 w = Inr False"
  proof (rule content_ok)
    show "unat (len_used b1) = 10" using assms(2) by simp
    show "read_bytes (byte_heap w) (buf_addr b1) 10 = Some expectedbuf1"
      using assms(3) by (simp only: expectedbuf1_def)
    show "strlen expectedbuf1 = 10" by simp
  qed
  have n: "unat (len_used b2) = 9" using assms(5) by simp
  have c2: "content_is_wrong expectedbuf2 b2 v = Inr True" for v
    by (rule length_wrong) (simp add: n)
  have "read_bytes (byte_heap w) (buf_addr b2) 9 = Some (take 9 ''Buffer two'')"
    using assms(6) by (rule read_bytes_take) simp
  then have "print_bytes (byte_heap w) (buf_addr b2) 9 = Inr ''Buffer tw''"
    by (intro print_bytes_of_read) (simp_all add: NUL_def)
  then have p: "fmt_prec_s (len_used b2) (buf_addr b2) w = Inr ''Buffer tw''"
    by (simp add: fmt_prec_s_def n)
  have r: "YdB_vArIaDiC_pLiSt_TeSt 3 [IntSlot 42, PtrSlot p1, PtrSlot p2] w =
     Inr (1, w\<lparr>stdout := stdout w @
       ''VPLST: FAIL test - Buffer2 content is wrong - expected Buffer two but received Buffer tw\<newline>''\<rparr>)"
    using assms(1,4) c1 c2 [of w] p by (simp add: routine_defs)
  have m: "memcmp expectedbuf2 Map.empty (buf_addr b2) (unat (len_used b2)) = Inl UnreadableByte"
    by (simp add: memcmp_def n expectedbuf2_def numeral_eq_Suc)
  show ?thesis using r c2 m by simp
qed

theorem short_length_returns_1_witness:
  "observable (YdB_vArIaDiC_pLiSt_TeSt 3 [IntSlot 42, PtrSlot 100, PtrSlot 200]
     (sample_world ''Buffer one'' 10 ''Buffer two'' 9))
   = Inr (1, ''VPLST: FAIL test - Buffer2 content is wrong - expected Buffer two but received Buffer tw\<newline>'')
   \<and> memcmp expectedbuf2 Map.empty 1010 9 = Inl UnreadableByte"
proof -
  let ?w = "sample_world ''Buffer one'' 10 ''Buffer two'' 9"
  have d1: "desc_heap ?w 100 = Some \<lparr>len_alloc = 10, len_used = 10, buf_addr = 1000\<rparr>"
    by (simp add: sample_world_def)
  have r1: "read_bytes (byte_heap ?w)
             (buf_addr \<lparr>len_alloc = 10, len_used = 10, buf_addr = 1000\<rparr>) 10 = Some ''Buffer one''"
    by (simp add: sample_world_buf1)
  have d2: "desc_heap ?w 200 = Some \<lparr>len_alloc = 10, len_used = 9, buf_addr = 1010\<rparr>"
    by (simp add: sample_world_def)
  have r2: "read_bytes (byte_heap ?w)
             (buf_addr \<lparr>len_alloc = 10, len_used = 9, buf_addr = 1010\<rparr>) 10 = Some ''Buffer two''"
    by (simp add: sample_world_buf2)
  show ?thesis
    using short_length_returns_1 [OF d1 _ r1 d2 _ r2]
    by (simp add: observable_def sample_world_def)
qed

text \<open>
  C7. Whenever the routine returns a value other than 0, that value is 1 and exactly one
  diagnostic has been appended to standard output: the one of the check that failed, with
  the expected value (3, 42, "Buffer one" or "Buffer two") and the value received (the
  count, the integer, or the buffer's bytes as \<^verbatim>\<open>%.*s\<close> prints them). A detected
  mismatch has no other outcome than this return: on every call whose count is not 3, and
  on every well-formed call with count 3, the routine returns. The only other outcome of
  the model is the undefined behaviour of a read the C standard does not define, which is
  not a detected error.
\<close>

theorem failure_returns_1_with_diagnostic:
  "((argcnt \<noteq> 3 \<or> well_formed_call args w) \<longrightarrow>
      (\<exists>rv w'. YdB_vArIaDiC_pLiSt_TeSt argcnt args w = Inr (rv, w')))
   \<and> (\<forall>rv w'. YdB_vArIaDiC_pLiSt_TeSt argcnt args w = Inr (rv, w') \<longrightarrow> rv \<noteq> 0 \<longrightarrow>
        rv = 1 \<and>
        ((argcnt \<noteq> 3 \<and> stdout w' = stdout w @
            ''VPLST: FAIL test - Argument count is wrong - expected arg cont 3 but received ''
            @ fmt_d argcnt @ ''\<newline>'')
         \<or> (\<exists>num rest. args = IntSlot num # rest \<and> num \<noteq> 42 \<and> stdout w' = stdout w @
            ''VPLST: FAIL test - First parameter is wrong - expected 42 but received ''
            @ fmt_d num @ ''\<newline>'')
         \<or> (\<exists>p1 rest b1 received. args = IntSlot 42 # PtrSlot p1 # rest
              \<and> desc_heap w p1 = Some b1
              \<and> fmt_prec_s (len_used b1) (buf_addr b1) w = Inr received
              \<and> stdout w' = stdout w @
            ''VPLST: FAIL test - Buffer1 content is wrong - expected Buffer one but received ''
            @ received @ ''\<newline>'')
         \<or> (\<exists>p1 p2 rest b2 received. args = IntSlot 42 # PtrSlot p1 # PtrSlot p2 # rest
              \<and> desc_heap w p2 = Some b2
              \<and> fmt_prec_s (len_used b2) (buf_addr b2) w = Inr received
              \<and> stdout w' = stdout w @
            ''VPLST: FAIL test - Buffer2 content is wrong - expected Buffer two but received ''
            @ received @ ''\<newline>'')))"
proof (intro conjI impI allI)
  assume "argcnt \<noteq> 3 \<or> well_formed_call args w"
  then show "\<exists>rv w'. YdB_vArIaDiC_pLiSt_TeSt argcnt args w = Inr (rv, w')"
  proof
    assume "argcnt \<noteq> 3"
    then show ?thesis
      by (simp add: YdB_vArIaDiC_pLiSt_TeSt_def expectedargs_def)
  next
    assume "well_formed_call args w"
    then show ?thesis by (rule well_formed_returns)
  qed
next
  fix rv w'
  assume r: "YdB_vArIaDiC_pLiSt_TeSt argcnt args w = Inr (rv, w')" and nz: "rv \<noteq> 0"
  from routine_shape [OF r] nz show "rv = 1" by auto
  from routine_shape [OF r] nz
  show "(argcnt \<noteq> 3 \<and> stdout w' = stdout w @
            ''VPLST: FAIL test - Argument count is wrong - expected arg cont 3 but received ''
            @ fmt_d argcnt @ ''\<newline>'')
         \<or> (\<exists>num rest. args = IntSlot num # rest \<and> num \<noteq> 42 \<and> stdout w' = stdout w @
            ''VPLST: FAIL test - First parameter is wrong - expected 42 but received ''
            @ fmt_d num @ ''\<newline>'')
         \<or> (\<exists>p1 rest b1 received. args = IntSlot 42 # PtrSlot p1 # rest
              \<and> desc_heap w p1 = Some b1
              \<and> fmt_prec_s (len_used b1) (buf_addr b1) w = Inr received
              \<and> stdout w' = stdout w @
            ''VPLST: FAIL test - Buffer1 content is wrong - expected Buffer one but received ''
            @ received @ ''\<newline>'')
         \<or> (\<exists>p1 p2 rest b2 received. args = IntSlot 42 # PtrSlot p1 # PtrSlot p2 # rest
              \<and> desc_heap w p2 = Some b2
              \<and> fmt_prec_s (len_used b2) (buf_addr b2) w = Inr received
              \<and> stdout w' = stdout w @
            ''VPLST: FAIL test - Buffer2 content is wrong - expected Buffer two but received ''
            @ received @ ''\<newline>'')"
    by (elim disjE conjE exE) simp_all
qed

theorem failure_returns_1_with_diagnostic_witness:
  "well_formed_call [IntSlot 42, PtrSlot 100, PtrSlot 200]
     (sample_world ''Buffer one'' 10 ''Buffer TWO'' 10)
   \<and> (\<exists>w'. YdB_vArIaDiC_pLiSt_TeSt 3 [IntSlot 42, PtrSlot 100, PtrSlot 200]
              (sample_world ''Buffer one'' 10 ''Buffer TWO'' 10) = Inr (1, w')
         \<and> stdout w' =
            ''VPLST: FAIL test - Buffer2 content is wrong - expected Buffer two but received Buffer TWO\<newline>'')"
  using failure_returns_1_with_diagnostic
    [of 3 "[IntSlot 42, PtrSlot 100, PtrSlot 200]" "sample_world ''Buffer one'' 10 ''Buffer TWO'' 10"]
    sample_failure sample_well_formed [of "''Buffer one''" "''Buffer TWO''" 42]
  by simp

text \<open>
  C8. Whenever the routine returns, with 0 or with 1, the buffer structures (address,
  allocated length, used length) and the bytes of the store are what they were before the
  call; only standard output may have grown. The argument slots are passed by value, and a
  pull (\<^verbatim>\<open>va_arg\<close>) only advances the cursor: the slots under it stay as they were.
\<close>

theorem routine_only_reads:
  "(\<forall>rv w'. YdB_vArIaDiC_pLiSt_TeSt argcnt args w = Inr (rv, w') \<longrightarrow>
       desc_heap w' = desc_heap w \<and> byte_heap w' = byte_heap w)
   \<and> (\<forall>n ap'. va_arg_int ap = Inr (n, ap') \<longrightarrow> ap_slots ap' = ap_slots ap)
   \<and> (\<forall>p ap'. va_arg_ptr ap = Inr (p, ap') \<longrightarrow> ap_slots ap' = ap_slots ap)"
proof (intro conjI allI impI)
  fix rv w'
  assume r: "YdB_vArIaDiC_pLiSt_TeSt argcnt args w = Inr (rv, w')"
  from routine_shape [OF r] show "desc_heap w' = desc_heap w" by auto
  from routine_shape [OF r] show "byte_heap w' = byte_heap w" by auto
next
  fix n ap'
  assume "va_arg_int ap = Inr (n, ap')"
  then show "ap_slots ap' = ap_slots ap"
    by (auto simp: va_arg_int_def split: if_splits slot.splits)
next
  fix p ap'
  assume "va_arg_ptr ap = Inr (p, ap')"
  then show "ap_slots ap' = ap_slots ap"
    by (auto simp: va_arg_ptr_def split: if_splits slot.splits)
qed

theorem routine_only_reads_witness:
  "\<exists>w'. YdB_vArIaDiC_pLiSt_TeSt 3 [IntSlot 42, PtrSlot 100, PtrSlot 200]
            (sample_world ''Buffer one'' 10 ''Buffer TWO'' 10) = Inr (1, w')
      \<and> desc_heap w' = desc_heap (sample_world ''Buffer one'' 10 ''Buffer TWO'' 10)
      \<and> byte_heap w' = byte_heap (sample_world ''Buffer one'' 10 ''Buffer TWO'' 10)
      \<and> stdout w' \<noteq> stdout (sample_world ''Buffer one'' 10 ''Buffer TWO'' 10)"
  using routine_only_reads
    [of 3 "[IntSlot 42, PtrSlot 100, PtrSlot 200]" "sample_world ''Buffer one'' 10 ''Buffer TWO'' 10"]
    sample_failure
  by (simp add: sample_world_def)

text \<open>
  C9. Two calls that differ only in the \<^verbatim>\<open>len_alloc\<close> fields of the buffer structures in
  the store give the same result: the same value returned and the same text on standard
  output (or the same undefined behaviour).
\<close>

theorem len_alloc_irrelevant:
  assumes "same_but_len_alloc w w'"
  shows "observable (YdB_vArIaDiC_pLiSt_TeSt argcnt args w')
       = observable (YdB_vArIaDiC_pLiSt_TeSt argcnt args w)"
proof -
  have "observable (YdB_vArIaDiC_pLiSt_TeSt argcnt args w')
      = observable (YdB_vArIaDiC_pLiSt_TeSt argcnt args (zero_alloc w'))"
    by (simp add: observable_zero_alloc)
  also have "\<dots> = observable (YdB_vArIaDiC_pLiSt_TeSt argcnt args (zero_alloc w))"
    using assms by (simp add: zero_alloc_eq)
  also have "\<dots> = observable (YdB_vArIaDiC_pLiSt_TeSt argcnt args w)"
    by (simp add: observable_zero_alloc)
  finally show ?thesis .
qed


theorem len_alloc_irrelevant_witness:
  "same_but_len_alloc (sample_world ''Buffer one'' 10 ''Buffer two'' 10)
     ((sample_world ''Buffer one'' 10 ''Buffer two'' 10)\<lparr>desc_heap :=
        [100 \<mapsto> \<lparr>len_alloc = 64, len_used = 10, buf_addr = 1000\<rparr>,
         200 \<mapsto> \<lparr>len_alloc = 0, len_used = 10, buf_addr = 1010\<rparr>]\<rparr>)
   \<and> observable (YdB_vArIaDiC_pLiSt_TeSt 3 [IntSlot 42, PtrSlot 100, PtrSlot 200]
       ((sample_world ''Buffer one'' 10 ''Buffer two'' 10)\<lparr>desc_heap :=
        [100 \<mapsto> \<lparr>len_alloc = 64, len_used = 10, buf_addr = 1000\<rparr>,
         200 \<mapsto> \<lparr>len_alloc = 0, len_used = 10, buf_addr = 1010\<rparr>]\<rparr>))
     = Inr (0, [])"
proof -
  let ?w = "sample_world ''Buffer one'' 10 ''Buffer two'' 10"
  let ?w' = "?w\<lparr>desc_heap :=
        [100 \<mapsto> \<lparr>len_alloc = 64, len_used = 10, buf_addr = 1000\<rparr>,
         200 \<mapsto> \<lparr>len_alloc = 0, len_used = 10, buf_addr = 1010\<rparr>]\<rparr>"
  have s: "same_but_len_alloc ?w ?w'"
    by (simp add: same_but_len_alloc_def sample_world_def)
  have "observable (YdB_vArIaDiC_pLiSt_TeSt 3 [IntSlot 42, PtrSlot 100, PtrSlot 200] ?w) = Inr (0, [])"
    by (simp add: sample_success observable_def) (simp add: sample_world_def)
  with len_alloc_irrelevant [OF s, of 3 "[IntSlot 42, PtrSlot 100, PtrSlot 200]"] s
  show ?thesis by simp
qed

text \<open>
  C10. The routine returns 0 or 1 and nothing else, and when it returns 0 it has printed
  nothing: the debug flag is 0 and the success path has no \<^verbatim>\<open>printf\<close>. It does return on
  every call whose count is not 3 and on every well-formed call.
\<close>

theorem returns_0_or_1_silent_on_success:
  "((argcnt \<noteq> 3 \<or> well_formed_call args w) \<longrightarrow>
      (\<exists>rv w'. YdB_vArIaDiC_pLiSt_TeSt argcnt args w = Inr (rv, w')))
   \<and> (\<forall>rv w'. YdB_vArIaDiC_pLiSt_TeSt argcnt args w = Inr (rv, w') \<longrightarrow>
        (rv = 0 \<or> rv = 1) \<and> (rv = 0 \<longrightarrow> stdout w' = stdout w))
   \<and> debugFlag = 0"
proof (intro conjI impI allI)
  assume "argcnt \<noteq> 3 \<or> well_formed_call args w"
  then show "\<exists>rv w'. YdB_vArIaDiC_pLiSt_TeSt argcnt args w = Inr (rv, w')"
  proof
    assume "argcnt \<noteq> 3"
    then show ?thesis
      by (simp add: YdB_vArIaDiC_pLiSt_TeSt_def expectedargs_def)
  next
    assume "well_formed_call args w"
    then show ?thesis by (rule well_formed_returns)
  qed
next
  fix rv w'
  assume r: "YdB_vArIaDiC_pLiSt_TeSt argcnt args w = Inr (rv, w')"
  from routine_shape [OF r] show "rv = 0 \<or> rv = 1" by auto
  assume "rv = 0"
  with routine_shape [OF r] show "stdout w' = stdout w" by auto
next
  show "debugFlag = 0" by (simp add: debugFlag_def)
qed

theorem returns_0_or_1_silent_on_success_witness:
  "well_formed_call [IntSlot 42, PtrSlot 100, PtrSlot 200]
     (sample_world ''Buffer one'' 10 ''Buffer two'' 10)
   \<and> (\<exists>w'. YdB_vArIaDiC_pLiSt_TeSt 3 [IntSlot 42, PtrSlot 100, PtrSlot 200]
              (sample_world ''Buffer one'' 10 ''Buffer two'' 10) = Inr (0, w')
         \<and> stdout w' = [])"
  using returns_0_or_1_silent_on_success
    [of 3 "[IntSlot 42, PtrSlot 100, PtrSlot 200]" "sample_world ''Buffer one'' 10 ''Buffer two'' 10"]
    sample_success sample_well_formed [of "''Buffer one''" "''Buffer two''" 42]
  by (simp add: sample_world_def)


text \<open>
  C3. Round trip. Whatever sequence of integer and buffer-pointer slots is appended, in
  order, to a freshly created parameter list whose capacity it does not exceed, every
  append succeeds, the raw handle carries the count and the slots in the order of
  appending, and \<^verbatim>\<open>invoke\<close> with a consumer that expects that order pulls exactly the
  values appended, in the same order: each integer is the same 32-bit word, and each
  pointer is the same address, hence designates the same buffer structure and bytes of
  the store, which neither the builder nor a pull touches.
\<close>

theorem append_then_invoke_roundtrip:
  assumes "create_list avail capacity = Inr pl0" and "length xs \<le> capacity"
  shows "\<exists>pl. append_all xs pl0 = Inr pl
           \<and> asRawHandle pl = (length xs, xs)
           \<and> invoke (map kind_of xs) (fst (asRawHandle pl)) (snd (asRawHandle pl)) = Consumed xs"
proof -
  from assms(1) have pl0: "pl0 = \<lparr>pl_capacity = capacity, pl_count = 0, pl_slots = []\<rparr>"
    by (auto simp: create_list_def split: if_splits)
  let ?pl = "pl0\<lparr>pl_count := length xs, pl_slots := xs\<rparr>"
  have a: "append_all xs pl0 = Inr ?pl"
    using append_all_ok [of pl0 xs] assms(2) by (simp add: pl0)
  have h: "asRawHandle ?pl = (length xs, xs)"
    by (simp add: asRawHandle_def)
  have "pull_all (map kind_of (drop 0 xs)) \<lparr>ap_slots = xs, ap_next = 0\<rparr> = Inr (drop 0 xs)"
    by (rule pull_all_from [OF refl]) simp
  then have "invoke (map kind_of xs) (length xs) xs = Consumed xs"
    by (simp add: invoke_def va_start_def)
  with a h show ?thesis by simp
qed

text \<open>
  The fixed scenario of the source, built with three appends: the generic consumer reads
  the three values back, and the routine of the source, called on the raw handle, returns 0.
\<close>

theorem append_then_invoke_roundtrip_witness:
  "\<exists>pl. append_all [IntSlot 42, PtrSlot 100, PtrSlot 200]
           \<lparr>pl_capacity = 4, pl_count = 0, pl_slots = []\<rparr> = Inr pl
      \<and> asRawHandle pl = (3, [IntSlot 42, PtrSlot 100, PtrSlot 200])
      \<and> invoke [IntKind, PtrKind, PtrKind] (fst (asRawHandle pl)) (snd (asRawHandle pl))
          = Consumed [IntSlot 42, PtrSlot 100, PtrSlot 200]
      \<and> YdB_vArIaDiC_pLiSt_TeSt (of_nat (fst (asRawHandle pl))) (snd (asRawHandle pl))
           (sample_world ''Buffer one'' 10 ''Buffer two'' 10)
          = Inr (0, sample_world ''Buffer one'' 10 ''Buffer two'' 10)"
proof -
  have c: "create_list 8 4 = Inr \<lparr>pl_capacity = 4, pl_count = 0, pl_slots = []\<rparr>"
    by (simp add: create_list_def)
  from append_then_invoke_roundtrip [OF c, of "[IntSlot 42, PtrSlot 100, PtrSlot 200]"]
  show ?thesis using sample_success by auto
qed


end
